theory Spec2Isabelle
  imports Main
begin

section \<open>Python values, dictionaries and exceptions\<close>

text \<open>
  The payload of a Socket.IO event is a JSON value decoded by the library: \<open>None\<close>, a
  boolean, an integer, a finite float (kept as mantissa and binary exponent), a string, a
  list, or a dictionary with string keys. A dictionary is an association list in insertion
  order, read with \<open>map_of\<close>. In a string, one \<open>char\<close> stands for one character of the
  Python \<open>str\<close>.
\<close>

datatype pyval =
    PNone
  | PBool bool
  | PInt int
  | PFloat int int
  | PStr string
  | PList "pyval list"
  | PDict "(string \<times> pyval) list"

text \<open>The truth value Python gives a value in an \<open>if\<close>.\<close>

fun truthy :: "pyval \<Rightarrow> bool" where
  "truthy PNone = False"
| "truthy (PBool b) = b"
| "truthy (PInt i) = (i \<noteq> 0)"
| "truthy (PFloat m x) = (m \<noteq> 0)"
| "truthy (PStr s) = (s \<noteq> [])"
| "truthy (PList vs) = (vs \<noteq> [])"
| "truthy (PDict kvs) = (kvs \<noteq> [])"

datatype exn =
    ConnectionError string
  | KeyboardInterrupt
  | KeyError string
  | AttributeError
  | OtherError string

text \<open>\<open>d.get(k, default)\<close> and \<open>d[k]\<close>: the second raises \<open>KeyError\<close> on a missing key.\<close>

definition dict_get :: "(string \<times> pyval) list \<Rightarrow> string \<Rightarrow> pyval \<Rightarrow> pyval" where
  "dict_get d k dflt = (case map_of d k of None \<Rightarrow> dflt | Some v \<Rightarrow> v)"

definition dict_item :: "(string \<times> pyval) list \<Rightarrow> string \<Rightarrow> exn + pyval" where
  "dict_item d k = (case map_of d k of None \<Rightarrow> Inl (KeyError k) | Some v \<Rightarrow> Inr v)"

text \<open>\<open>os.getenv(name, default)\<close> over the process environment.\<close>

definition getenv :: "(string \<rightharpoonup> string) \<Rightarrow> string \<Rightarrow> string \<Rightarrow> string" where
  "getenv environ name dflt = (case environ name of None \<Rightarrow> dflt | Some v \<Rightarrow> v)"

section \<open>What the process does, and what the library answers\<close>

text \<open>
  The calls the script makes on the Socket.IO client object \<open>sio\<close>, and the events the
  library hands to the registered handlers. \<open>Connect\<close> carries the URL, the \<open>auth\<close>
  dictionary and the transports; \<open>Emit\<close> the event name and its optional argument.
\<close>

datatype libcall =
    Connect string "(string \<times> string) list" "string list"
  | Wait
  | Emit string "string option"
  | Disconnect

datatype effect = Print string | Call libcall

datatype inbound =
    EvConnect
  | EvDisconnect
  | EvConnectError pyval
  | EvAuthError pyval
  | EvNotification pyval
  | EvPong pyval
  | EvServerShutdown pyval
  | EvOther string pyval

text \<open>
  The client library, the server and the clock are not part of the script. They are a
  parameter: an oracle that, from the history of what the process has done so far, tells
  whether a call on \<open>sio\<close> raises, which events the library hands to the handlers while
  the call is in progress, what \<open>sio.connected\<close> and \<open>sio.sid\<close> read, and what the
  \<open>n\<close>-th reading of \<open>datetime.now().isoformat()\<close> is. \<open>fmt\<close> is the text Python's
  \<open>str\<close> gives a value that is not itself a string.
\<close>

record env =
  clock :: "nat \<Rightarrow> string"
  fmt :: "pyval \<Rightarrow> string"
  raises :: "effect list \<Rightarrow> libcall \<Rightarrow> exn option"
  arrivals :: "effect list \<Rightarrow> libcall \<Rightarrow> inbound list"
  connected :: "effect list \<Rightarrow> bool"
  sid :: "effect list \<Rightarrow> string"

text \<open>
  The state of the process: the three module-level variables of the configuration
  (lines 25 to 27), the effects so far, oldest first, and the number of clock readings.
\<close>

record state =
  SOCKET_URL :: string
  API_KEY :: string
  USER_EMAIL :: string
  trace :: "effect list"
  reads :: nat

definition load_module :: "(string \<rightharpoonup> string) \<Rightarrow> state" where
  "load_module environ =
     \<lparr>SOCKET_URL = getenv environ ''SOCKET_URL'' ''http://localhost:3001'',
      API_KEY = getenv environ ''WEBSOCKET_API_KEY'' '''',
      USER_EMAIL = getenv environ ''USER_EMAIL'' ''python-client@example.com'',
      trace = [],
      reads = 0\<rparr>"

text \<open>The client is created with these keyword arguments (lines 30 to 35).\<close>

record client_config =
  reconnection :: bool
  reconnection_attempts :: nat
  reconnection_delay :: nat
  reconnection_delay_max :: nat

definition sio :: client_config where
  "sio = \<lparr>reconnection = True, reconnection_attempts = 5,
          reconnection_delay = 1, reconnection_delay_max = 5\<rparr>"

subsection \<open>Printing, the clock, and calls on the client\<close>

definition print :: "string \<Rightarrow> state \<Rightarrow> state" where
  "print s st = st\<lparr>trace := trace st @ [Print s]\<rparr>"

definition now :: "env \<Rightarrow> state \<Rightarrow> string \<times> state" where
  "now e st = (clock e (reads st), st\<lparr>reads := Suc (reads st)\<rparr>)"

text \<open>\<open>print(f'[{datetime.now().isoformat()}] text')\<close>\<close>

definition stamp_print :: "env \<Rightarrow> string \<Rightarrow> state \<Rightarrow> state" where
  "stamp_print e text st =
     (case now e st of (t, st1) \<Rightarrow> print (''['' @ t @ ''] '' @ text) st1)"

text \<open>The same with a leading newline, \<open>print(f'\n[{...}] text')\<close>.\<close>

definition stamp_print_nl :: "env \<Rightarrow> string \<Rightarrow> state \<Rightarrow> state" where
  "stamp_print_nl e text st =
     (case now e st of (t, st1) \<Rightarrow> print (CHR 0x0A # ''['' @ t @ ''] '' @ text) st1)"

text \<open>A replacement field \<open>{v}\<close> of an f-string: a string is inserted as it is.\<close>

definition py_format :: "env \<Rightarrow> pyval \<Rightarrow> string" where
  "py_format e v = (case v of PStr s \<Rightarrow> s | _ \<Rightarrow> fmt e v)"

text \<open>
  \<open>sio.emit\<close> called from a handler: the call is recorded and the oracle says whether
  it raises. It only queues a packet, so no handler runs inside it.
\<close>

definition emit :: "env \<Rightarrow> string \<Rightarrow> string option \<Rightarrow> state \<Rightarrow> exn option \<times> state" where
  "emit e ev arg st =
     (raises e (trace st) (Emit ev arg), st\<lparr>trace := trace st @ [Call (Emit ev arg)]\<rparr>)"

section \<open>The event handlers\<close>

text \<open>Lines 38 to 45. \<open>sio.sid\<close> is read before the first line is printed.\<close>

definition connect :: "env \<Rightarrow> state \<Rightarrow> exn option \<times> state" where
  "connect e st =
     (let st1 = stamp_print e (''Connected to server with SID: '' @ sid e (trace st)) st in
      case emit e ''subscribe'' (Some ''python-clients'') st1 of
        (Some x, st2) \<Rightarrow> (Some x, st2)
      | (None, st2) \<Rightarrow> (None, stamp_print e ''Subscribed to room: python-clients'' st2))"

text \<open>Lines 48 to 51.\<close>

definition disconnect :: "env \<Rightarrow> state \<Rightarrow> exn option \<times> state" where
  "disconnect e st = (None, stamp_print e ''Disconnected from server'' st)"

text \<open>Lines 54 to 57.\<close>

definition connect_error :: "env \<Rightarrow> pyval \<Rightarrow> state \<Rightarrow> exn option \<times> state" where
  "connect_error e data st =
     (None, stamp_print e (''Connection failed: '' @ py_format e data) st)"

text \<open>
  Lines 60 to 64. The clock is read first, then \<open>data.get\<close> is evaluated, which raises
  \<open>AttributeError\<close> when the payload is not a dictionary.
\<close>

definition on_auth_error :: "env \<Rightarrow> pyval \<Rightarrow> state \<Rightarrow> exn option \<times> state" where
  "on_auth_error e data st =
     (case now e st of (t, st1) \<Rightarrow>
        (case data of
           PDict d \<Rightarrow>
             (None,
              print ''Please check your WEBSOCKET_API_KEY environment variable.''
                (print (''['' @ t @ ''] Authentication failed: ''
                         @ py_format e (dict_get d ''message'' (PStr ''Unknown error''))) st1))
         | _ \<Rightarrow> (Some AttributeError, st1)))"

text \<open>\<open>print(f'  Label: {data["key"]}')\<close>, the direct read of a key.\<close>

definition print_item ::
  "env \<Rightarrow> string \<Rightarrow> (string \<times> pyval) list \<Rightarrow> string \<Rightarrow> state \<Rightarrow> exn option \<times> state" where
  "print_item e label d k st =
     (case dict_item d k of
        Inl x \<Rightarrow> (Some x, st)
      | Inr v \<Rightarrow> (None, print (label @ py_format e v) st))"

text \<open>Lines 67 to 88.\<close>

definition on_notification :: "env \<Rightarrow> pyval \<Rightarrow> state \<Rightarrow> exn option \<times> state" where
  "on_notification e data st =
     (let st1 = stamp_print_nl e ''=== NOTIFICATION RECEIVED ==='' st in
      case data of
        PDict d \<Rightarrow>
          (let st2 = print (''  Type: '' @ py_format e (dict_get d ''type'' (PStr ''unknown''))) st1 in
           case (if truthy (dict_get d ''title'' PNone)
                 then print_item e ''  Title: '' d ''title'' st2 else (None, st2)) of
             (Some x, st3) \<Rightarrow> (Some x, st3)
           | (None, st3) \<Rightarrow>
               (let st4 = print (''  Message: '' @ py_format e (dict_get d ''message'' (PStr ''''))) st3 in
                case (if truthy (dict_get d ''data'' PNone)
                      then print_item e ''  Data: '' d ''data'' st4 else (None, st4)) of
                  (Some x, st5) \<Rightarrow> (Some x, st5)
                | (None, st5) \<Rightarrow>
                    (None,
                     print (replicate 50 CHR ''='')
                       (print (''  Timestamp: ''
                                @ py_format e (dict_get d ''timestamp'' (PStr ''N/A''))) st5))))
      | _ \<Rightarrow> (Some AttributeError, st1))"

text \<open>Lines 91 to 94.\<close>

definition on_pong :: "env \<Rightarrow> pyval \<Rightarrow> state \<Rightarrow> exn option \<times> state" where
  "on_pong e data st = (None, stamp_print e (''Pong received: '' @ py_format e data) st)"

text \<open>Lines 97 to 100.\<close>

definition on_server_shutdown :: "env \<Rightarrow> pyval \<Rightarrow> state \<Rightarrow> exn option \<times> state" where
  "on_server_shutdown e data st =
     (None, stamp_print e (''Server is shutting down: '' @ py_format e data) st)"

text \<open>Lines 103 to 106. Nothing in the script calls this function.\<close>

definition send_ping :: "env \<Rightarrow> state \<Rightarrow> exn option \<times> state" where
  "send_ping e st =
     (case emit e ''ping'' None st of
        (Some x, st1) \<Rightarrow> (Some x, st1)
      | (None, st1) \<Rightarrow> (None, stamp_print e ''Ping sent'' st1))"

subsection \<open>Dispatch\<close>

text \<open>
  The handler the decorators registered for an event; an event without a handler is
  dropped. The library runs the handlers one after the other, and an exception that
  leaves a handler does not reach \<open>main\<close>: the state keeps what the handler did before.
\<close>

fun handler :: "env \<Rightarrow> inbound \<Rightarrow> state \<Rightarrow> exn option \<times> state" where
  "handler e EvConnect st = connect e st"
| "handler e EvDisconnect st = disconnect e st"
| "handler e (EvConnectError data) st = connect_error e data st"
| "handler e (EvAuthError data) st = on_auth_error e data st"
| "handler e (EvNotification data) st = on_notification e data st"
| "handler e (EvPong data) st = on_pong e data st"
| "handler e (EvServerShutdown data) st = on_server_shutdown e data st"
| "handler e (EvOther name data) st = (None, st)"

fun dispatch :: "env \<Rightarrow> inbound list \<Rightarrow> state \<Rightarrow> state" where
  "dispatch e [] st = st"
| "dispatch e (ev # evs) st = dispatch e evs (snd (handler e ev st))"

text \<open>
  A call on \<open>sio\<close> made by \<open>main\<close>: the call is recorded, the events that arrive while it
  is in progress are dispatched, and it returns or raises as the oracle says for the
  history before the call.
\<close>

definition lib_call :: "env \<Rightarrow> libcall \<Rightarrow> state \<Rightarrow> exn option \<times> state" where
  "lib_call e c st =
     (raises e (trace st) c,
      dispatch e (arrivals e (trace st) c) (st\<lparr>trace := trace st @ [Call c]\<rparr>))"

section \<open>The main function\<close>

text \<open>Lines 111 to 117, the banner, as the list of printed lines.\<close>

definition banner :: "state \<Rightarrow> string list" where
  "banner st =
     [''RAGFlow Socket.IO Python Client'',
      replicate 40 CHR ''='',
      ''Server URL: '' @ SOCKET_URL st,
      ''API Key: '' @ (if API_KEY st \<noteq> [] then replicate (length (API_KEY st)) CHR ''*''
                       else ''(not set)''),
      ''User Email: '' @ USER_EMAIL st,
      replicate 40 CHR ''='',
      '''']"

text \<open>Lines 119 to 122.\<close>

definition warning :: "state \<Rightarrow> string list" where
  "warning st =
     (if API_KEY st = [] then
        [''WARNING: No API key set. Connection may be rejected if server requires authentication.'',
         ''Set WEBSOCKET_API_KEY environment variable to authenticate.'',
         '''']
      else [])"

definition print_all :: "string list \<Rightarrow> state \<Rightarrow> state" where
  "print_all ls st = fold print ls st"

text \<open>Lines 126 to 128.\<close>

definition auth_payload :: "state \<Rightarrow> (string \<times> string) list" where
  "auth_payload st =
     [(''email'', USER_EMAIL st)]
     @ (if API_KEY st \<noteq> [] then [(''apiKey'', API_KEY st)] else [])"

text \<open>Lines 132 to 136, the call \<open>sio.connect(...)\<close>.\<close>

definition connect_call :: "state \<Rightarrow> libcall" where
  "connect_call st = Connect (SOCKET_URL st) (auth_payload st) [''websocket'', ''polling'']"

text \<open>Lines 125 to 142, the body of \<open>try\<close>.\<close>

definition main_try :: "env \<Rightarrow> state \<Rightarrow> exn option \<times> state" where
  "main_try e st =
     (let st1 = stamp_print e (''Connecting to '' @ SOCKET_URL st @ ''...'') st in
      case lib_call e (connect_call st) st1 of
        (Some x, st2) \<Rightarrow> (Some x, st2)
      | (None, st2) \<Rightarrow>
          lib_call e Wait
            (print '''' (stamp_print e ''Waiting for notifications (Ctrl+C to exit)...'' st2)))"

text \<open>
  Lines 144 to 147, the two \<open>except\<close> clauses: each prints and ends the exception; any
  other exception stays pending.
\<close>

definition main_except :: "env \<Rightarrow> exn option \<Rightarrow> state \<Rightarrow> exn option \<times> state" where
  "main_except e r st =
     (case r of
        Some (ConnectionError m) \<Rightarrow> (None, stamp_print e (''Failed to connect: '' @ m) st)
      | Some KeyboardInterrupt \<Rightarrow> (None, stamp_print_nl e ''Interrupted by user'' st)
      | _ \<Rightarrow> (r, st))"

text \<open>Lines 148 to 153, the \<open>finally\<close> clause.\<close>

definition main_finally :: "env \<Rightarrow> state \<Rightarrow> exn option \<times> state" where
  "main_finally e st =
     (if connected e (trace st) then
        (case lib_call e (Emit ''unsubscribe'' (Some ''python-clients'')) st of
           (Some x, st1) \<Rightarrow> (Some x, st1)
         | (None, st1) \<Rightarrow>
             (case lib_call e Disconnect st1 of
                (Some x, st2) \<Rightarrow> (Some x, st2)
              | (None, st2) \<Rightarrow> (None, stamp_print e ''Disconnected gracefully'' st2)))
      else (None, st))"

text \<open>
  Lines 109 to 153. The result is the exception that leaves \<open>main\<close>, if any: one raised
  in \<open>finally\<close> replaces a pending one.
\<close>

definition main :: "env \<Rightarrow> state \<Rightarrow> exn option \<times> state" where
  "main e st =
     (let st0 = print_all (warning st) (print_all (banner st) st) in
      case main_try e st0 of (r, st1) \<Rightarrow>
        (case main_except e r st1 of (pending, st2) \<Rightarrow>
           (case main_finally e st2 of
              (Some x, st3) \<Rightarrow> (Some x, st3)
            | (None, st3) \<Rightarrow> (pending, st3))))"

text \<open>
  Lines 156 and 157: the script loads the module and runs \<open>main\<close>. The interpreter ends
  with status 0 when \<open>main\<close> returns, with 130 on an uncaught \<open>KeyboardInterrupt\<close> and
  with 1 on any other uncaught exception.
\<close>

definition exit_status :: "exn option \<Rightarrow> nat" where
  "exit_status r = (case r of None \<Rightarrow> 0 | Some KeyboardInterrupt \<Rightarrow> 130 | Some _ \<Rightarrow> 1)"

definition program :: "env \<Rightarrow> (string \<rightharpoonup> string) \<Rightarrow> nat \<times> state" where
  "program e environ = (case main e (load_module environ) of (r, st) \<Rightarrow> (exit_status r, st))"

section \<open>Vocabulary of the statements\<close>

text \<open>The effects between two states of one run.\<close>

definition new_effects :: "state \<Rightarrow> state \<Rightarrow> effect list" where
  "new_effects st st' = drop (length (trace st)) (trace st')"

text \<open>
  What a handler can do: print, or emit \<open>subscribe\<close> for the room \<open>python-clients\<close>
  (line 44). What \<open>main\<close> itself calls on \<open>sio\<close>: \<open>connect\<close>, \<open>wait\<close>, an emit of
  \<open>unsubscribe\<close>, and \<open>disconnect\<close>.
\<close>

definition handler_effect :: "effect \<Rightarrow> bool" where
  "handler_effect x =
     (case x of Print s \<Rightarrow> True | Call c \<Rightarrow> c = Emit ''subscribe'' (Some ''python-clients''))"

definition main_call :: "libcall \<Rightarrow> bool" where
  "main_call c =
     (case c of Connect url a ts \<Rightarrow> True | Wait \<Rightarrow> True
      | Emit ev a \<Rightarrow> ev = ''unsubscribe'' | Disconnect \<Rightarrow> True)"

definition main_effect :: "effect \<Rightarrow> bool" where
  "main_effect x = (case x of Print s \<Rightarrow> True | Call c \<Rightarrow> handler_effect x \<or> main_call c)"

definition grows :: "state \<Rightarrow> state \<Rightarrow> bool" where
  "grows st st' = (\<exists>xs. trace st' = trace st @ xs \<and> list_all main_effect xs)"

text \<open>
  Points of \<open>main\<close>: the state in which \<open>sio.connect\<close> is called (after line 131), the one
  in which \<open>sio.wait\<close> is called (after line 139), the one after the \<open>except\<close> clause of a
  \<open>ConnectionError\<close> raised by \<open>sio.connect\<close> (line 145), the one after the \<open>except\<close>
  clause of a \<open>KeyboardInterrupt\<close> raised by \<open>sio.wait\<close> (line 147), and the emit of
  \<open>unsubscribe\<close> made from there (line 151).
\<close>

definition before_connect :: "env \<Rightarrow> state \<Rightarrow> state" where
  "before_connect e st =
     stamp_print e (''Connecting to '' @ SOCKET_URL st @ ''...'')
       (print_all (warning st) (print_all (banner st) st))"

definition before_wait :: "env \<Rightarrow> state \<Rightarrow> state" where
  "before_wait e st =
     print '''' (stamp_print e ''Waiting for notifications (Ctrl+C to exit)...''
       (snd (lib_call e (connect_call st) (before_connect e st))))"

definition failed :: "env \<Rightarrow> string \<Rightarrow> state \<Rightarrow> state" where
  "failed e m st =
     stamp_print e (''Failed to connect: '' @ m)
       (snd (lib_call e (connect_call st) (before_connect e st)))"

definition interrupted :: "env \<Rightarrow> state \<Rightarrow> state" where
  "interrupted e st =
     stamp_print_nl e ''Interrupted by user'' (snd (lib_call e Wait (before_wait e st)))"

definition unsubscribed :: "env \<Rightarrow> state \<Rightarrow> exn option \<times> state" where
  "unsubscribed e st =
     lib_call e (Emit ''unsubscribe'' (Some ''python-clients'')) (interrupted e st)"

text \<open>
  The state in which \<open>main\<close> enters the \<open>finally\<close> clause (line 148), and the growth of
  a trace by effects that are not a call of \<open>sio.disconnect\<close>.
\<close>

definition before_finally :: "env \<Rightarrow> state \<Rightarrow> state" where
  "before_finally e st =
     (let t = main_try e (print_all (warning st) (print_all (banner st) st))
      in snd (main_except e (fst t) (snd t)))"

definition grows_quietly :: "state \<Rightarrow> state \<Rightarrow> bool" where
  "grows_quietly st st' = (\<exists>xs. trace st' = trace st @ xs \<and> Call Disconnect \<notin> set xs)"

section \<open>Concrete runs\<close>

text \<open>
  A process environment, and three behaviours of the library. In \<open>env_demo\<close> the
  connection is accepted, a pong arrives during the wait, the user interrupts the wait,
  and the client is connected from the call of \<open>connect\<close> to the call of \<open>disconnect\<close>.
  \<open>env_unsubscribe_fails\<close> is the same, but the emit of \<open>unsubscribe\<close> raises.
  In \<open>env_refused\<close> the call of \<open>connect\<close> raises \<open>ConnectionError\<close>.
\<close>

definition environ_demo :: "string \<rightharpoonup> string" where
  "environ_demo =
     [''WEBSOCKET_API_KEY'' \<mapsto> ''secret'', ''USER_EMAIL'' \<mapsto> ''u@example.com'']"

definition environ_unset :: "string \<rightharpoonup> string" where
  "environ_unset = (\<lambda>name. None)"

definition st_demo :: state where
  "st_demo = load_module environ_demo"

definition env_demo :: env where
  "env_demo =
     \<lparr>clock = (\<lambda>n. ''T''),
      fmt = (\<lambda>v. ''?''),
      raises = (\<lambda>h c. if c = Wait then Some KeyboardInterrupt else None),
      arrivals = (\<lambda>h c. if c = Wait then [EvPong (PStr ''alive'')]
                          else if c = Disconnect then [EvDisconnect]
                          else if c = connect_call st_demo then [EvConnect] else []),
      connected = (\<lambda>h. Call (connect_call st_demo) \<in> set h \<and> Call Disconnect \<notin> set h),
      sid = (\<lambda>h. ''sid1'')\<rparr>"

text \<open>
  The state of the run \<open>env_demo\<close> in which the client has connected and \<open>main\<close> is about
  to wait, after a ping has been sent from there.
\<close>

definition st_pinged :: state where
  "st_pinged = snd (send_ping env_demo (before_wait env_demo st_demo))"

definition env_unsubscribe_fails :: env where
  "env_unsubscribe_fails =
     env_demo\<lparr>raises :=
       (\<lambda>h c. if c = Wait then Some KeyboardInterrupt
               else if c = Emit ''unsubscribe'' (Some ''python-clients'')
               then Some (OtherError ''BadNamespaceError'') else None)\<rparr>"

definition env_refused :: env where
  "env_refused =
     \<lparr>clock = (\<lambda>n. ''T''),
      fmt = (\<lambda>v. ''?''),
      raises = (\<lambda>h c. if c = connect_call st_demo
                       then Some (ConnectionError ''Connection refused by the server'')
                       else None),
      arrivals = (\<lambda>h c. if c = connect_call st_demo
                         then [EvConnectError (PStr ''Connection refused by the server'')]
                         else []),
      connected = (\<lambda>h. False),
      sid = (\<lambda>h. ''None'')\<rparr>"

section \<open>Traces of the primitives\<close>

lemma trace_print [simp]: "trace (print s st) = trace st @ [Print s]"
  by (simp add: print_def)

lemma trace_stamp_print [simp]:
  "trace (stamp_print e text st) = trace st @ [Print (''['' @ clock e (reads st) @ ''] '' @ text)]"
  by (simp add: stamp_print_def now_def)

lemma trace_stamp_print_nl [simp]:
  "trace (stamp_print_nl e text st) =
     trace st @ [Print (CHR 0x0A # ''['' @ clock e (reads st) @ ''] '' @ text)]"
  by (simp add: stamp_print_nl_def now_def)

lemma trace_print_all [simp]: "trace (print_all ls st) = trace st @ map Print ls"
  unfolding print_all_def by (induction ls arbitrary: st) simp_all

lemma vars_print [simp]:
  "SOCKET_URL (print s st) = SOCKET_URL st" "API_KEY (print s st) = API_KEY st"
  "USER_EMAIL (print s st) = USER_EMAIL st" "reads (print s st) = reads st"
  by (simp_all add: print_def)

lemma vars_stamp_print [simp]:
  "SOCKET_URL (stamp_print e t st) = SOCKET_URL st" "API_KEY (stamp_print e t st) = API_KEY st"
  "USER_EMAIL (stamp_print e t st) = USER_EMAIL st" "reads (stamp_print e t st) = Suc (reads st)"
  by (simp_all add: stamp_print_def now_def)

lemma vars_print_all [simp]:
  "SOCKET_URL (print_all ls st) = SOCKET_URL st" "API_KEY (print_all ls st) = API_KEY st"
  "USER_EMAIL (print_all ls st) = USER_EMAIL st" "reads (print_all ls st) = reads st"
  unfolding print_all_def by (induction ls arbitrary: st, simp_all)+

lemma connect_call_print_all [simp]: "connect_call (print_all ls st) = connect_call st"
  by (simp add: connect_call_def auth_payload_def)

lemma new_effects_append [simp]: "trace st' = trace st @ xs \<Longrightarrow> new_effects st st' = xs"
  by (simp add: new_effects_def)

section \<open>What the handlers add to the trace\<close>

lemma handler_trace:
  "\<exists>xs. trace (snd (handler e ev st)) = trace st @ xs \<and> list_all handler_effect xs"
  by (cases ev)
     (auto simp: connect_def disconnect_def connect_error_def on_auth_error_def
        on_notification_def on_pong_def on_server_shutdown_def emit_def print_item_def now_def
        handler_effect_def Let_def
        split: prod.splits option.splits pyval.splits sum.splits)

lemma dispatch_trace:
  "\<exists>xs. trace (dispatch e evs st) = trace st @ xs \<and> list_all handler_effect xs"
proof (induction evs arbitrary: st)
  case Nil
  then show ?case by simp
next
  case (Cons ev evs)
  obtain xs where xs: "trace (snd (handler e ev st)) = trace st @ xs" "list_all handler_effect xs"
    using handler_trace by blast
  obtain ys where ys:
    "trace (dispatch e evs (snd (handler e ev st))) = trace (snd (handler e ev st)) @ ys"
    "list_all handler_effect ys"
    using Cons.IH by blast
  show ?case using xs ys by simp
qed

lemma lib_call_trace:
  "\<exists>xs. trace (snd (lib_call e c st)) = trace st @ Call c # xs \<and> list_all handler_effect xs"
  using dispatch_trace [of e "arrivals e (trace st) c" "st\<lparr>trace := trace st @ [Call c]\<rparr>"]
  by (auto simp: lib_call_def)

lemma handler_effect_no_disconnect: "list_all handler_effect xs \<Longrightarrow> Call Disconnect \<notin> set xs"
  by (auto simp: list_all_iff handler_effect_def)

lemma handler_effect_main: "list_all handler_effect xs \<Longrightarrow> list_all main_effect xs"
  by (auto simp: list_all_iff handler_effect_def main_effect_def split: effect.splits)

section \<open>What main adds to the trace\<close>

lemma grows_refl [simp]: "grows st st"
  by (simp add: grows_def)

lemma grows_trans: "grows a b \<Longrightarrow> grows b c \<Longrightarrow> grows a c"
  by (auto simp: grows_def)

lemma grows_print [simp]: "grows st (print s st)"
  by (simp add: grows_def main_effect_def)

lemma grows_stamp_print [simp]: "grows st (stamp_print e t st)"
  by (simp add: grows_def main_effect_def)

lemma grows_stamp_print_nl [simp]: "grows st (stamp_print_nl e t st)"
  by (simp add: grows_def main_effect_def)

lemma grows_print_all [simp]: "grows st (print_all ls st)"
  by (simp add: grows_def main_effect_def list_all_iff)

lemma grows_lib_call: "main_call c \<Longrightarrow> grows st (snd (lib_call e c st))"
  using lib_call_trace [of e c st] handler_effect_main
  by (auto simp: grows_def main_effect_def)

lemma main_call_simps [simp]:
  "main_call (connect_call st)" "main_call Wait" "main_call Disconnect"
  "main_call (Emit ''unsubscribe'' a)"
  by (simp_all add: main_call_def connect_call_def)

lemma main_try_raises:
  assumes "fst (lib_call e (connect_call st) (before_connect e st)) = Some x"
  shows "main_try e (print_all (warning st) (print_all (banner st) st))
           = (Some x, snd (lib_call e (connect_call st) (before_connect e st)))"
  using assms
  by (cases "lib_call e (connect_call st) (before_connect e st)")
     (simp add: main_try_def before_connect_def)

lemma main_try_returns:
  assumes "fst (lib_call e (connect_call st) (before_connect e st)) = None"
  shows "main_try e (print_all (warning st) (print_all (banner st) st))
           = lib_call e Wait (before_wait e st)"
  using assms
  by (cases "lib_call e (connect_call st) (before_connect e st)")
     (simp add: main_try_def before_connect_def before_wait_def)

lemma main_unfold:
  "main e st =
     (let t = main_try e (print_all (warning st) (print_all (banner st) st));
          x = main_except e (fst t) (snd t);
          f = main_finally e (snd x)
      in (case fst f of Some y \<Rightarrow> Some y | None \<Rightarrow> fst x, snd f))"
  by (simp add: main_def Let_def split: prod.splits option.splits)

lemma trace_before_connect:
  "trace (before_connect e st) =
     trace st @ map Print (banner st @ warning st)
     @ [Print (''['' @ clock e (reads st) @ ''] Connecting to '' @ SOCKET_URL st @ ''...'')]"
  by (simp add: before_connect_def)

lemma grows_before_connect: "grows st (before_connect e st)"
  by (auto simp: grows_def trace_before_connect main_effect_def list_all_iff)

lemma grows_before_wait:
  "grows (snd (lib_call e (connect_call st) (before_connect e st))) (before_wait e st)"
  by (simp add: grows_def before_wait_def main_effect_def)

lemma grows_main_try_from_connect:
  "grows (snd (lib_call e (connect_call st) (before_connect e st)))
         (snd (main_try e (print_all (warning st) (print_all (banner st) st))))"
proof (cases "fst (lib_call e (connect_call st) (before_connect e st))")
  case None
  have "grows (before_wait e st) (snd (lib_call e Wait (before_wait e st)))"
    by (simp add: grows_lib_call)
  with grows_before_wait have
    "grows (snd (lib_call e (connect_call st) (before_connect e st)))
           (snd (lib_call e Wait (before_wait e st)))"
    by (rule grows_trans)
  then show ?thesis
    by (simp add: main_try_returns [OF None])
next
  case (Some x)
  then show ?thesis
    by (simp add: main_try_raises [OF Some])
qed

lemma grows_main_except: "grows st (snd (main_except e r st))"
  by (auto simp: main_except_def split: option.splits exn.splits)

lemma grows_main_finally: "grows st (snd (main_finally e st))"
proof -
  let ?st1 = "snd (lib_call e (Emit ''unsubscribe'' (Some ''python-clients'')) st)"
  let ?st2 = "snd (lib_call e Disconnect ?st1)"
  have 1: "grows st ?st1" by (simp add: grows_lib_call)
  have 2: "grows ?st1 ?st2" by (simp add: grows_lib_call)
  have 3: "grows ?st2 (stamp_print e ''Disconnected gracefully'' ?st2)" by simp
  show ?thesis
    using 1 grows_trans [OF 1 2] grows_trans [OF 1 grows_trans [OF 2 3]]
    by (auto simp: main_finally_def split: prod.splits option.splits)
qed

lemma grows_main_from_try:
  "grows (snd (main_try e (print_all (warning st) (print_all (banner st) st)))) (snd (main e st))"
proof -
  let ?t = "main_try e (print_all (warning st) (print_all (banner st) st))"
  let ?x = "main_except e (fst ?t) (snd ?t)"
  have "grows (snd ?t) (snd (main_finally e (snd ?x)))"
    by (rule grows_trans [OF grows_main_except grows_main_finally])
  then show ?thesis
    by (simp add: main_unfold Let_def)
qed

lemma grows_main_from_connect:
  "grows (snd (lib_call e (connect_call st) (before_connect e st))) (snd (main e st))"
  by (rule grows_trans [OF grows_main_try_from_connect grows_main_from_try])

lemma grows_main: "grows st (snd (main e st))"
proof -
  have "grows (before_connect e st) (snd (lib_call e (connect_call st) (before_connect e st)))"
    by (simp add: grows_lib_call)
  with grows_before_connect have
    "grows st (snd (lib_call e (connect_call st) (before_connect e st)))"
    by (rule grows_trans)
  then show ?thesis
    using grows_main_from_connect by (rule grows_trans)
qed

lemma main_reaches_connect:
  "\<exists>rest. trace (snd (main e st)) = trace (before_connect e st) @ Call (connect_call st) # rest"
proof -
  obtain xs where xs:
    "trace (snd (lib_call e (connect_call st) (before_connect e st)))
       = trace (before_connect e st) @ Call (connect_call st) # xs"
    using lib_call_trace [of e "connect_call st" "before_connect e st"] by blast
  obtain ys where
    "trace (snd (main e st)) = trace (snd (lib_call e (connect_call st) (before_connect e st))) @ ys"
    using grows_main_from_connect [of e st] by (auto simp: grows_def)
  with xs show ?thesis by simp
qed


text \<open>The course of \<open>main\<close> when \<open>sio.wait\<close> is interrupted.\<close>

lemma main_interrupted:
  assumes "fst (lib_call e (connect_call st) (before_connect e st)) = None"
      and "fst (lib_call e Wait (before_wait e st)) = Some KeyboardInterrupt"
  shows "main e st =
           (case fst (main_finally e (interrupted e st)) of Some y \<Rightarrow> Some y | None \<Rightarrow> None,
            snd (main_finally e (interrupted e st)))"
proof -
  have "main_except e (Some KeyboardInterrupt) (snd (lib_call e Wait (before_wait e st)))
          = (None, interrupted e st)"
    by (simp add: main_except_def interrupted_def)
  then show ?thesis
    by (simp add: main_unfold Let_def main_try_returns [OF assms(1)] assms(2)
          split: option.splits)
qed

lemma main_finally_connected:
  assumes "connected e (trace st)"
  shows "main_finally e st =
    (case fst (lib_call e (Emit ''unsubscribe'' (Some ''python-clients'')) st) of
       Some x \<Rightarrow> (Some x, snd (lib_call e (Emit ''unsubscribe'' (Some ''python-clients'')) st))
     | None \<Rightarrow>
        (case fst (lib_call e Disconnect
                     (snd (lib_call e (Emit ''unsubscribe'' (Some ''python-clients'')) st))) of
           Some x \<Rightarrow> (Some x, snd (lib_call e Disconnect
                     (snd (lib_call e (Emit ''unsubscribe'' (Some ''python-clients'')) st))))
         | None \<Rightarrow> (None, stamp_print e ''Disconnected gracefully'' (snd (lib_call e Disconnect
                     (snd (lib_call e (Emit ''unsubscribe'' (Some ''python-clients'')) st)))))))"
  using assms by (auto simp: main_finally_def split: prod.splits option.splits)

section \<open>The concrete runs, evaluated\<close>

lemmas run_defs =
  main_def main_try_def main_except_def main_finally_def lib_call_def banner_def warning_def
  print_all_def print_def stamp_print_def stamp_print_nl_def now_def connect_call_def
  auth_payload_def load_module_def getenv_def connect_def disconnect_def connect_error_def
  emit_def on_pong_def py_format_def st_demo_def environ_demo_def env_demo_def
  env_unsubscribe_fails_def env_refused_def before_connect_def before_wait_def failed_def
  interrupted_def unsubscribed_def

lemma st_demo_eq:
  "st_demo = \<lparr>SOCKET_URL = ''http://localhost:3001'', API_KEY = ''secret'',
      USER_EMAIL = ''u@example.com'', trace = [], reads = 0\<rparr>"
  by (simp add: st_demo_def load_module_def getenv_def environ_demo_def)

lemma main_demo:
  "main env_demo st_demo =
     (None,
      \<lparr>SOCKET_URL = ''http://localhost:3001'', API_KEY = ''secret'',
       USER_EMAIL = ''u@example.com'',
       trace =
         [Print ''RAGFlow Socket.IO Python Client'',
          Print (replicate 40 CHR ''=''),
          Print ''Server URL: http://localhost:3001'',
          Print ''API Key: ******'', Print ''User Email: u@example.com'',
          Print (replicate 40 CHR ''=''), Print [],
          Print ''[T] Connecting to http://localhost:3001...'',
          Call (Connect ''http://localhost:3001''
                  [(''email'', ''u@example.com''), (''apiKey'', ''secret'')]
                  [''websocket'', ''polling'']),
          Print ''[T] Connected to server with SID: sid1'',
          Call (Emit ''subscribe'' (Some ''python-clients'')),
          Print ''[T] Subscribed to room: python-clients'',
          Print ''[T] Waiting for notifications (Ctrl+C to exit)...'',
          Print [], Call Wait, Print ''[T] Pong received: alive'',
          Print (CHR 0x0A # ''[T] Interrupted by user''),
          Call (Emit ''unsubscribe'' (Some ''python-clients'')),
          Call Disconnect, Print ''[T] Disconnected from server'',
          Print ''[T] Disconnected gracefully''],
       reads = 8\<rparr>)"
  by (simp add: run_defs)

lemma main_unsubscribe_fails:
  "main env_unsubscribe_fails st_demo =
     (Some (OtherError ''BadNamespaceError''),
      \<lparr>SOCKET_URL = ''http://localhost:3001'', API_KEY = ''secret'',
       USER_EMAIL = ''u@example.com'',
       trace =
         [Print ''RAGFlow Socket.IO Python Client'',
          Print (replicate 40 CHR ''=''),
          Print ''Server URL: http://localhost:3001'',
          Print ''API Key: ******'', Print ''User Email: u@example.com'',
          Print (replicate 40 CHR ''=''), Print [],
          Print ''[T] Connecting to http://localhost:3001...'',
          Call (Connect ''http://localhost:3001''
                  [(''email'', ''u@example.com''), (''apiKey'', ''secret'')]
                  [''websocket'', ''polling'']),
          Print ''[T] Connected to server with SID: sid1'',
          Call (Emit ''subscribe'' (Some ''python-clients'')),
          Print ''[T] Subscribed to room: python-clients'',
          Print ''[T] Waiting for notifications (Ctrl+C to exit)...'',
          Print [], Call Wait, Print ''[T] Pong received: alive'',
          Print (CHR 0x0A # ''[T] Interrupted by user''),
          Call (Emit ''unsubscribe'' (Some ''python-clients''))],
       reads = 6\<rparr>)"
  by (simp add: run_defs)


lemma st_pinged_eq:
  "st_pinged =
     \<lparr>SOCKET_URL = ''http://localhost:3001'', API_KEY = ''secret'',
      USER_EMAIL = ''u@example.com'',
      trace =
        [Print ''RAGFlow Socket.IO Python Client'',
         Print (replicate 40 CHR ''=''),
         Print ''Server URL: http://localhost:3001'',
         Print ''API Key: ******'', Print ''User Email: u@example.com'',
         Print (replicate 40 CHR ''=''), Print [],
         Print ''[T] Connecting to http://localhost:3001...'',
         Call (Connect ''http://localhost:3001''
                 [(''email'', ''u@example.com''), (''apiKey'', ''secret'')]
                 [''websocket'', ''polling'']),
         Print ''[T] Connected to server with SID: sid1'',
         Call (Emit ''subscribe'' (Some ''python-clients'')),
         Print ''[T] Subscribed to room: python-clients'',
         Print ''[T] Waiting for notifications (Ctrl+C to exit)...'',
         Print [], Call (Emit ''ping'' None), Print ''[T] Ping sent''],
      reads = 5\<rparr>"
  by (simp add: st_pinged_def send_ping_def run_defs)

section \<open>Before the shutdown path, no disconnect\<close>

lemma quietly_refl [simp]: "grows_quietly st st"
  by (simp add: grows_quietly_def)

lemma quietly_trans: "grows_quietly a b \<Longrightarrow> grows_quietly b c \<Longrightarrow> grows_quietly a c"
  by (auto simp: grows_quietly_def)

lemma quietly_print [simp]: "grows_quietly st (print s st)"
  by (simp add: grows_quietly_def)

lemma quietly_stamp_print [simp]: "grows_quietly st (stamp_print e t st)"
  by (simp add: grows_quietly_def)

lemma quietly_stamp_print_nl [simp]: "grows_quietly st (stamp_print_nl e t st)"
  by (simp add: grows_quietly_def)

lemma quietly_lib_call: "c \<noteq> Disconnect \<Longrightarrow> grows_quietly st (snd (lib_call e c st))"
  using lib_call_trace [of e c st] handler_effect_no_disconnect
  by (auto simp: grows_quietly_def)

lemma quietly_before_connect: "grows_quietly st (before_connect e st)"
  by (auto simp: grows_quietly_def trace_before_connect)

lemma quietly_main_except: "grows_quietly st (snd (main_except e r st))"
  by (auto simp: main_except_def split: option.splits exn.splits)

lemma quietly_main_try:
  "grows_quietly st (snd (main_try e (print_all (warning st) (print_all (banner st) st))))"
proof -
  let ?C = "lib_call e (connect_call st) (before_connect e st)"
  have c: "grows_quietly st (snd ?C)"
    by (rule quietly_trans [where b = "before_connect e st"])
       (simp_all add: quietly_before_connect quietly_lib_call connect_call_def)
  show ?thesis
  proof (cases "fst ?C")
    case None
    have "grows_quietly (snd ?C) (before_wait e st)"
      by (simp add: grows_quietly_def before_wait_def)
    moreover have "grows_quietly (before_wait e st) (snd (lib_call e Wait (before_wait e st)))"
      by (simp add: quietly_lib_call)
    ultimately have "grows_quietly (snd ?C) (snd (lib_call e Wait (before_wait e st)))"
      by (rule quietly_trans)
    with c have "grows_quietly st (snd (lib_call e Wait (before_wait e st)))"
      by (rule quietly_trans)
    then show ?thesis
      by (simp add: main_try_returns [OF None])
  next
    case (Some x)
    with c show ?thesis
      by (simp add: main_try_raises [OF Some])
  qed
qed

lemma quietly_before_finally: "grows_quietly st (before_finally e st)"
  unfolding before_finally_def Let_def
  by (rule quietly_trans [OF quietly_main_try quietly_main_except])

lemma snd_main: "snd (main e st) = snd (main_finally e (before_finally e st))"
  by (simp add: main_unfold before_finally_def Let_def)

text \<open>The shutdown path calls \<open>sio.disconnect\<close> at most once.\<close>

lemma main_finally_one_disconnect:
  "count_list (new_effects s (snd (main_finally e s))) (Call Disconnect) \<le> 1"
proof (cases "connected e (trace s)")
  case False
  then show ?thesis
    by (simp add: main_finally_def new_effects_def)
next
  case True
  let ?U = "lib_call e (Emit ''unsubscribe'' (Some ''python-clients'')) s"
  let ?D = "lib_call e Disconnect (snd ?U)"
  obtain xs where xs:
    "trace (snd ?U) = trace s @ Call (Emit ''unsubscribe'' (Some ''python-clients'')) # xs"
    "list_all handler_effect xs"
    using lib_call_trace by blast
  obtain ys where ys: "trace (snd ?D) = trace (snd ?U) @ Call Disconnect # ys"
    "list_all handler_effect ys"
    using lib_call_trace by blast
  have nx: "count_list xs (Call Disconnect) = 0"
    using handler_effect_no_disconnect [OF xs(2)] by simp
  have ny: "count_list ys (Call Disconnect) = 0"
    using handler_effect_no_disconnect [OF ys(2)] by simp
  show ?thesis
  proof (cases "fst ?U")
    case (Some x)
    then have "new_effects s (snd (main_finally e s))
                 = Call (Emit ''unsubscribe'' (Some ''python-clients'')) # xs"
      by (simp add: main_finally_connected [OF True] xs(1))
    then show ?thesis using nx by simp
  next
    case None
    show ?thesis
    proof (cases "fst ?D")
      case (Some x)
      with None have "new_effects s (snd (main_finally e s))
                 = Call (Emit ''unsubscribe'' (Some ''python-clients'')) # xs
                   @ Call Disconnect # ys"
        by (simp add: main_finally_connected [OF True] xs(1) ys(1))
      then show ?thesis using nx ny by simp
    next
      case n: None
      with None have "new_effects s (snd (main_finally e s))
                 = Call (Emit ''unsubscribe'' (Some ''python-clients'')) # xs
                   @ Call Disconnect # ys
                   @ [Print (''['' @ clock e (reads (snd ?D)) @ ''] Disconnected gracefully'')]"
        by (simp add: main_finally_connected [OF True] xs(1) ys(1))
      then show ?thesis using nx ny by simp
    qed
  qed
qed

lemma main_finally_extends:
  "\<exists>zs. trace (snd (main_finally e s)) = trace s @ zs"
  using grows_main_finally [of s e] by (auto simp: grows_def)

section \<open>What the script fixes for the transport\<close>

text \<open>
  The client object is created with automatic reconnection enabled, five attempts, and a
  delay that starts at one second and is capped at five. What the library does with
  these numbers is outside the script.
\<close>

lemma sio_configuration:
  "reconnection sio \<and> reconnection_attempts sio = 5
   \<and> reconnection_delay sio = 1 \<and> reconnection_delay_max sio = 5"
  by (simp add: sio_def)

text \<open>
  The handler of \<open>auth:error\<close> prints two lines for a dictionary payload and calls
  nothing on the client: the script itself neither reconnects nor disconnects there.
\<close>

lemma on_auth_error_dict:
  "on_auth_error e (PDict d) st =
     (None, st\<lparr>trace := trace st
        @ [Print (''['' @ clock e (reads st) @ ''] Authentication failed: ''
                  @ py_format e (dict_get d ''message'' (PStr ''Unknown error''))),
           Print ''Please check your WEBSOCKET_API_KEY environment variable.''],
        reads := Suc (reads st)\<rparr>)"
  by (simp add: on_auth_error_def now_def print_def)

section \<open>The notification handler\<close>

lemma print_item_truthy:
  "truthy (dict_get d k PNone) \<Longrightarrow>
     print_item e label d k s = (None, print (label @ py_format e (dict_get d k PNone)) s)"
  by (auto simp: print_item_def dict_item_def dict_get_def split: option.splits)

text \<open>All that \<open>on_notification\<close> does with a dictionary.\<close>

lemma on_notification_dict:
  "on_notification e (PDict d) st =
     (None, st\<lparr>trace := trace st @ map Print
        ([CHR 0x0A # ''['' @ clock e (reads st) @ ''] === NOTIFICATION RECEIVED ==='',
          ''  Type: '' @ py_format e (dict_get d ''type'' (PStr ''unknown''))]
         @ (if truthy (dict_get d ''title'' PNone)
            then [''  Title: '' @ py_format e (dict_get d ''title'' PNone)] else [])
         @ [''  Message: '' @ py_format e (dict_get d ''message'' (PStr ''''))]
         @ (if truthy (dict_get d ''data'' PNone)
            then [''  Data: '' @ py_format e (dict_get d ''data'' PNone)] else [])
         @ [''  Timestamp: '' @ py_format e (dict_get d ''timestamp'' (PStr ''N/A'')),
            replicate 50 CHR ''='']),
        reads := Suc (reads st)\<rparr>)"
  by (cases "truthy (dict_get d ''title'' PNone)"; cases "truthy (dict_get d ''data'' PNone)")
     (simp_all add: on_notification_def print_item_truthy Let_def stamp_print_nl_def now_def
        print_def)

text \<open>
  C9. For every payload that is a dictionary, \<open>on_notification\<close> returns without an
  exception, so it raises no \<open>KeyError\<close>: \<open>data["title"]\<close> and \<open>data["data"]\<close> are read
  only when \<open>data.get\<close> of the same key is truthy. When the keys \<open>type\<close>, \<open>message\<close> and
  \<open>timestamp\<close> are absent, the lines printed carry the defaults \<open>unknown\<close>, the empty
  string and \<open>N/A\<close>.
\<close>

theorem on_notification_no_KeyError:
  "fst (on_notification e (PDict d) st) = None
   \<and> (map_of d ''type'' = None \<longrightarrow>
        Print ''  Type: unknown'' \<in> set (new_effects st (snd (on_notification e (PDict d) st))))
   \<and> (map_of d ''message'' = None \<longrightarrow>
        Print ''  Message: '' \<in> set (new_effects st (snd (on_notification e (PDict d) st))))
   \<and> (map_of d ''timestamp'' = None \<longrightarrow>
        Print ''  Timestamp: N/A'' \<in> set (new_effects st (snd (on_notification e (PDict d) st))))"
  by (simp add: on_notification_dict new_effects_def dict_get_def py_format_def)

theorem on_notification_no_KeyError_witness:
  "map_of [(''title'', PStr '''')] ''type'' = None
   \<and> map_of [(''title'', PStr '''')] ''message'' = None
   \<and> map_of [(''title'', PStr '''')] ''timestamp'' = None
   \<and> fst (on_notification env_demo (PDict [(''title'', PStr '''')]) st_demo) = None
   \<and> Print ''  Type: unknown''
        \<in> set (new_effects st_demo (snd (on_notification env_demo (PDict [(''title'', PStr '''')]) st_demo)))
   \<and> Print ''  Message: ''
        \<in> set (new_effects st_demo (snd (on_notification env_demo (PDict [(''title'', PStr '''')]) st_demo)))
   \<and> Print ''  Timestamp: N/A''
        \<in> set (new_effects st_demo (snd (on_notification env_demo (PDict [(''title'', PStr '''')]) st_demo)))"
  using on_notification_no_KeyError [of env_demo "[(''title'', PStr '''')]" st_demo]
  by simp

section \<open>The banner and the authentication payload\<close>

text \<open>
  C8. The banner shows the API key as one asterisk for each of its characters: two keys
  of the same non-zero length give the same banner, an empty key gives the text
  \<open>(not set)\<close>, and the banner is the first seven lines that \<open>main\<close> prints.
\<close>

theorem banner_masks_api_key:
  "(k1 \<noteq> [] \<and> length k1 = length k2 \<longrightarrow>
      banner (st\<lparr>API_KEY := k1\<rparr>) = banner (st\<lparr>API_KEY := k2\<rparr>))
   \<and> (k1 \<noteq> [] \<longrightarrow>
      banner (st\<lparr>API_KEY := k1\<rparr>) ! 3 = ''API Key: '' @ replicate (length k1) CHR ''*'')
   \<and> banner (st\<lparr>API_KEY := []\<rparr>) ! 3 = ''API Key: (not set)''
   \<and> take 7 (new_effects st (snd (main e st))) = map Print (banner st)"
proof -
  obtain rest where
    "trace (snd (main e st)) = trace (before_connect e st) @ Call (connect_call st) # rest"
    using main_reaches_connect by blast
  then have "take 7 (new_effects st (snd (main e st))) = map Print (banner st)"
    by (simp add: new_effects_def trace_before_connect) (simp add: banner_def)
  then show ?thesis
    by (auto simp: banner_def)
qed

theorem banner_masks_api_key_witness:
  "''secret'' \<noteq> [] \<and> length ''secret'' = length ''hunter''
   \<and> banner (st_demo\<lparr>API_KEY := ''secret''\<rparr>) = banner (st_demo\<lparr>API_KEY := ''hunter''\<rparr>)
   \<and> banner (st_demo\<lparr>API_KEY := ''secret''\<rparr>) ! 3
       = ''API Key: '' @ replicate (length ''secret'') CHR ''*''"
proof -
  have h: "''secret'' \<noteq> [] \<and> length ''secret'' = length ''hunter''"
    by simp
  show ?thesis
    using h banner_masks_api_key [of "''secret''" "''hunter''" st_demo env_demo]
    by blast
qed

text \<open>
  C7. Whatever the process environment holds, the payload built by \<open>main\<close> has the key
  \<open>email\<close>, with the value of \<open>USER_EMAIL\<close> or its default, and has the key \<open>apiKey\<close>
  exactly when \<open>WEBSOCKET_API_KEY\<close> is set to a non-empty string. With or without an API
  key, \<open>main\<close> prints the banner, the warning (three lines when the key is empty, none
  otherwise) and the connecting line, and then calls \<open>sio.connect\<close> with that payload:
  nothing is raised before the call.
\<close>

theorem auth_payload_built:
  "''email'' \<in> fst ` set (auth_payload (load_module environ))
   \<and> map_of (auth_payload (load_module environ)) ''email''
       = Some (getenv environ ''USER_EMAIL'' ''python-client@example.com'')
   \<and> (''apiKey'' \<in> fst ` set (auth_payload (load_module environ))
        \<longleftrightarrow> getenv environ ''WEBSOCKET_API_KEY'' '''' \<noteq> [])
   \<and> (getenv environ ''WEBSOCKET_API_KEY'' '''' \<noteq> [] \<longrightarrow>
        map_of (auth_payload (load_module environ)) ''apiKey''
          = Some (getenv environ ''WEBSOCKET_API_KEY'' ''''))
   \<and> (\<exists>rest. trace (snd (program e environ)) =
          map Print (banner (load_module environ) @ warning (load_module environ))
          @ [Print (''['' @ clock e 0 @ ''] Connecting to '' @ SOCKET_URL (load_module environ) @ ''...''),
             Call (Connect (SOCKET_URL (load_module environ)) (auth_payload (load_module environ))
                     [''websocket'', ''polling''])] @ rest)
   \<and> (getenv environ ''WEBSOCKET_API_KEY'' '''' = [] \<longrightarrow>
        warning (load_module environ) =
          [''WARNING: No API key set. Connection may be rejected if server requires authentication.'',
           ''Set WEBSOCKET_API_KEY environment variable to authenticate.'', ''''])"
proof -
  have "\<exists>rest. trace (snd (program e environ)) =
          map Print (banner (load_module environ) @ warning (load_module environ))
          @ [Print (''['' @ clock e 0 @ ''] Connecting to '' @ SOCKET_URL (load_module environ) @ ''...''),
             Call (Connect (SOCKET_URL (load_module environ)) (auth_payload (load_module environ))
                     [''websocket'', ''polling''])] @ rest"
    using main_reaches_connect [of e "load_module environ"]
    by (auto simp: program_def trace_before_connect connect_call_def split: prod.splits)
       (simp_all add: load_module_def)
  moreover have "''email'' \<in> fst ` set (auth_payload (load_module environ))"
    by (simp add: auth_payload_def)
  moreover have "map_of (auth_payload (load_module environ)) ''email''
       = Some (getenv environ ''USER_EMAIL'' ''python-client@example.com'')"
    by (simp add: auth_payload_def load_module_def)
  moreover have "''apiKey'' \<in> fst ` set (auth_payload (load_module environ))
        \<longleftrightarrow> getenv environ ''WEBSOCKET_API_KEY'' '''' \<noteq> []"
    by (auto simp: auth_payload_def load_module_def)
  moreover have "getenv environ ''WEBSOCKET_API_KEY'' '''' \<noteq> [] \<longrightarrow>
        map_of (auth_payload (load_module environ)) ''apiKey''
          = Some (getenv environ ''WEBSOCKET_API_KEY'' '''')"
    by (simp add: auth_payload_def load_module_def)
  moreover have "getenv environ ''WEBSOCKET_API_KEY'' '''' = [] \<longrightarrow>
        warning (load_module environ) =
          [''WARNING: No API key set. Connection may be rejected if server requires authentication.'',
           ''Set WEBSOCKET_API_KEY environment variable to authenticate.'', '''']"
    by (simp add: warning_def load_module_def)
  ultimately show ?thesis by blast
qed

theorem auth_payload_built_witness:
  "getenv environ_unset ''WEBSOCKET_API_KEY'' '''' = []
   \<and> ''email'' \<in> fst ` set (auth_payload (load_module environ_unset))
   \<and> ''apiKey'' \<notin> fst ` set (auth_payload (load_module environ_unset))
   \<and> warning (load_module environ_unset) =
          [''WARNING: No API key set. Connection may be rejected if server requires authentication.'',
           ''Set WEBSOCKET_API_KEY environment variable to authenticate.'', '''']
   \<and> getenv environ_demo ''WEBSOCKET_API_KEY'' '''' \<noteq> []
   \<and> map_of (auth_payload (load_module environ_demo)) ''apiKey'' = Some ''secret''"
proof -
  have unset: "getenv environ_unset ''WEBSOCKET_API_KEY'' '''' = []"
    by (simp add: getenv_def environ_unset_def)
  have demo: "getenv environ_demo ''WEBSOCKET_API_KEY'' '''' = ''secret''"
    by (simp add: getenv_def environ_demo_def)
  show ?thesis
    using auth_payload_built [of environ_unset env_demo] auth_payload_built [of environ_demo env_demo]
    by (simp add: unset demo)
qed

section \<open>Ping and pong\<close>

lemma dispatch_no_disconnect: "Call Disconnect \<notin> set (new_effects st (dispatch e evs st))"
proof -
  obtain xs where "trace (dispatch e evs st) = trace st @ xs" "list_all handler_effect xs"
    using dispatch_trace by blast
  then show ?thesis
    using handler_effect_no_disconnect by simp
qed

text \<open>
  C4, as the code has it. \<open>on_pong\<close> prints one line with the time and the payload and
  does nothing else: it changes none of the variables and stores no time of the last
  pong. \<open>send_ping\<close> emits \<open>ping\<close> and, when the emit returns, prints one line; it sets no
  timeout. Whatever events the library delivers, with or without a pong among them, the
  handlers never call \<open>sio.disconnect\<close>.
\<close>

theorem pong_only_prints:
  "on_pong e data st =
     (None, st\<lparr>trace := trace st
                  @ [Print (''['' @ clock e (reads st) @ ''] Pong received: '' @ py_format e data)],
              reads := Suc (reads st)\<rparr>)
   \<and> fst (send_ping e st) = raises e (trace st) (Emit ''ping'' None)
   \<and> new_effects st (snd (send_ping e st)) =
       Call (Emit ''ping'' None)
       # (if raises e (trace st) (Emit ''ping'' None) = None
          then [Print (''['' @ clock e (reads st) @ ''] Ping sent'')] else [])
   \<and> Call Disconnect \<notin> set (new_effects st (dispatch e evs st))"
proof -
  have "on_pong e data st =
     (None, st\<lparr>trace := trace st
                  @ [Print (''['' @ clock e (reads st) @ ''] Pong received: '' @ py_format e data)],
              reads := Suc (reads st)\<rparr>)"
    by (simp add: on_pong_def stamp_print_def now_def print_def)
  moreover have "fst (send_ping e st) = raises e (trace st) (Emit ''ping'' None)"
    by (simp add: send_ping_def emit_def split: option.splits)
  moreover have "new_effects st (snd (send_ping e st)) =
       Call (Emit ''ping'' None)
       # (if raises e (trace st) (Emit ''ping'' None) = None
          then [Print (''['' @ clock e (reads st) @ ''] Ping sent'')] else [])"
    by (simp add: send_ping_def emit_def new_effects_def stamp_print_def now_def print_def
          split: option.splits)
  ultimately show ?thesis
    using dispatch_no_disconnect by blast
qed

theorem pong_only_prints_witness:
  "on_pong env_demo (PStr ''alive'') st_demo =
     (None, st_demo\<lparr>trace := [Print ''[T] Pong received: alive''], reads := 1\<rparr>)
   \<and> new_effects st_demo (snd (send_ping env_demo st_demo))
       = [Call (Emit ''ping'' None), Print ''[T] Ping sent'']"
  using pong_only_prints [of env_demo "PStr ''alive''" st_demo "[]"]
  by (simp add: env_demo_def py_format_def st_demo_eq)

text \<open>
  The claim C4 as stated fails. In the run \<open>env_demo\<close> the client has connected and is
  waiting; a ping is sent from there and the emit returns; the client is still connected
  when the pong arrives. After \<open>on_pong\<close> the three module variables are what they were
  and the only new effect is the printed line: no time of last liveness is kept.
\<close>

theorem pong_liveness_counterexample:
  "connected env_demo (trace (before_wait env_demo st_demo))
   \<and> send_ping env_demo (before_wait env_demo st_demo) = (None, st_pinged)
   \<and> Call (Emit ''ping'' None) \<in> set (trace st_pinged)
   \<and> connected env_demo (trace st_pinged)
   \<and> on_pong env_demo (PStr ''alive'') st_pinged =
       (None, st_pinged\<lparr>trace := trace st_pinged @ [Print ''[T] Pong received: alive''],
                        reads := Suc (reads st_pinged)\<rparr>)
   \<and> new_effects st_pinged (snd (on_pong env_demo (PStr ''alive'') st_pinged))
       = [Print ''[T] Pong received: alive'']
   \<and> SOCKET_URL (snd (on_pong env_demo (PStr ''alive'') st_pinged)) = SOCKET_URL st_pinged
   \<and> API_KEY (snd (on_pong env_demo (PStr ''alive'') st_pinged)) = API_KEY st_pinged
   \<and> USER_EMAIL (snd (on_pong env_demo (PStr ''alive'') st_pinged)) = USER_EMAIL st_pinged"
proof -
  have c: "connected env_demo (trace (before_wait env_demo st_demo))"
    by (simp add: run_defs)
  have p: "send_ping env_demo (before_wait env_demo st_demo) = (None, st_pinged)"
    by (simp add: st_pinged_def send_ping_def run_defs)
  have o: "on_pong env_demo (PStr ''alive'') st_pinged =
       (None, st_pinged\<lparr>trace := trace st_pinged @ [Print ''[T] Pong received: alive''],
                        reads := Suc (reads st_pinged)\<rparr>)"
    by (simp add: on_pong_def stamp_print_def now_def print_def py_format_def env_demo_def)
  have t: "Call (Emit ''ping'' None) \<in> set (trace st_pinged)"
    by (simp add: st_pinged_eq)
  have d: "connected env_demo (trace st_pinged)"
    by (simp add: st_pinged_eq) (simp add: env_demo_def connect_call_def auth_payload_def st_demo_eq)
  show ?thesis
    using c p t d by (simp add: o new_effects_def)
qed

section \<open>The shutdown path\<close>

text \<open>
  The guard of the shutdown path of \<open>main\<close> (lines 148 to 153). When \<open>sio.connected\<close>
  reads false, the path calls neither \<open>emit\<close> nor \<open>disconnect\<close>, prints nothing and raises
  nothing. In a run of \<open>main\<close>, \<open>sio.disconnect\<close> is called at most once, and not at all
  when \<open>sio.connected\<close> reads false on entry to the path. What a call of
  \<open>sio.disconnect\<close> does inside the library is not part of the script.
\<close>

lemma shutdown_path_guard:
  "(\<not> connected e (trace s) \<longrightarrow> main_finally e s = (None, s))
   \<and> count_list (new_effects st (snd (main e st))) (Call Disconnect) \<le> 1
   \<and> (\<not> connected e (trace (before_finally e st)) \<longrightarrow>
        Call Disconnect \<notin> set (new_effects st (snd (main e st))))"
proof -
  let ?B = "before_finally e st"
  have idle: "main_finally e x = (None, x)" if "\<not> connected e (trace x)" for x
    using that by (simp add: main_finally_def)
  obtain pre where pre: "trace ?B = trace st @ pre" "Call Disconnect \<notin> set pre"
    using quietly_before_finally [of st e] by (auto simp: grows_quietly_def)
  obtain zs where zs: "trace (snd (main_finally e ?B)) = trace ?B @ zs"
    using main_finally_extends by blast
  have all: "new_effects st (snd (main e st)) = pre @ zs"
    by (rule new_effects_append) (simp add: snd_main zs pre(1))
  have fin: "new_effects ?B (snd (main_finally e ?B)) = zs"
    using zs by (rule new_effects_append)
  have "count_list zs (Call Disconnect) \<le> 1"
    using main_finally_one_disconnect [of ?B e] by (simp add: fin)
  then have once: "count_list (new_effects st (snd (main e st))) (Call Disconnect) \<le> 1"
    using pre(2) by (simp add: all)
  have none: "Call Disconnect \<notin> set (new_effects st (snd (main e st)))"
    if "\<not> connected e (trace ?B)"
  proof -
    have "zs = []"
      using zs idle [OF that] by simp
    then show ?thesis
      using pre(2) by (simp add: all)
  qed
  from idle once none show ?thesis by blast
qed

text \<open>
  C2, as the code has it. When \<open>sio.wait\<close> is interrupted and the client is connected,
  the shutdown path emits \<open>unsubscribe\<close> for the room; if that emit returns, it then calls
  \<open>sio.disconnect\<close>; if the emit raises, the exception leaves \<open>main\<close> and \<open>sio.disconnect\<close>
  is not called.
\<close>

theorem interrupt_shutdown:
  assumes "fst (lib_call e (connect_call st) (before_connect e st)) = None"
      and "fst (lib_call e Wait (before_wait e st)) = Some KeyboardInterrupt"
      and "connected e (trace (interrupted e st))"
  shows "(fst (unsubscribed e st) = None \<longrightarrow>
            (\<exists>xs ys. new_effects (interrupted e st) (snd (main e st))
                        = Call (Emit ''unsubscribe'' (Some ''python-clients'')) # xs
                          @ Call Disconnect # ys
                      \<and> list_all handler_effect xs))
       \<and> (fst (unsubscribed e st) \<noteq> None \<longrightarrow>
            fst (main e st) = fst (unsubscribed e st)
            \<and> hd (new_effects (interrupted e st) (snd (main e st)))
                = Call (Emit ''unsubscribe'' (Some ''python-clients''))
            \<and> Call Disconnect \<notin> set (new_effects (interrupted e st) (snd (main e st))))"
proof -
  let ?I = "interrupted e st"
  let ?U = "unsubscribed e st"
  let ?D = "lib_call e Disconnect (snd ?U)"
  have m: "main e st =
      (case fst (main_finally e ?I) of Some y \<Rightarrow> Some y | None \<Rightarrow> None,
       snd (main_finally e ?I))"
    by (rule main_interrupted [OF assms(1) assms(2)])
  have f: "main_finally e ?I =
      (case fst ?U of
         Some x \<Rightarrow> (Some x, snd ?U)
       | None \<Rightarrow>
          (case fst ?D of
             Some x \<Rightarrow> (Some x, snd ?D)
           | None \<Rightarrow> (None, stamp_print e ''Disconnected gracefully'' (snd ?D))))"
    unfolding unsubscribed_def by (rule main_finally_connected [OF assms(3)])
  obtain xs where xs:
    "trace (snd ?U) = trace ?I @ Call (Emit ''unsubscribe'' (Some ''python-clients'')) # xs"
    "list_all handler_effect xs"
    using lib_call_trace [of e "Emit ''unsubscribe'' (Some ''python-clients'')" ?I]
    by (auto simp: unsubscribed_def)
  obtain ys where ys: "trace (snd ?D) = trace (snd ?U) @ Call Disconnect # ys"
    using lib_call_trace [of e Disconnect "snd ?U"] by blast
  have ok: "\<exists>xs ys. new_effects ?I (snd (main e st))
                        = Call (Emit ''unsubscribe'' (Some ''python-clients'')) # xs
                          @ Call Disconnect # ys
                      \<and> list_all handler_effect xs"
    if "fst ?U = None"
  proof (cases "fst ?D")
    case None
    have "trace (snd (main e st)) =
            trace ?I @ Call (Emit ''unsubscribe'' (Some ''python-clients'')) # xs
            @ Call Disconnect # (ys @ [Print (''['' @ clock e (reads (snd ?D))
                                                @ ''] Disconnected gracefully'')])"
      using that None xs(1) ys by (simp add: m f)
    then have "new_effects ?I (snd (main e st)) =
            Call (Emit ''unsubscribe'' (Some ''python-clients'')) # xs
            @ Call Disconnect # (ys @ [Print (''['' @ clock e (reads (snd ?D))
                                                @ ''] Disconnected gracefully'')])"
      by (rule new_effects_append)
    with xs(2) show ?thesis by blast
  next
    case (Some x)
    have "trace (snd (main e st)) =
            trace ?I @ Call (Emit ''unsubscribe'' (Some ''python-clients'')) # xs
            @ Call Disconnect # ys"
      using that Some xs(1) ys by (simp add: m f)
    then have "new_effects ?I (snd (main e st)) =
            Call (Emit ''unsubscribe'' (Some ''python-clients'')) # xs @ Call Disconnect # ys"
      by (rule new_effects_append)
    with xs(2) show ?thesis by blast
  qed
  have bad: "fst (main e st) = fst ?U
            \<and> hd (new_effects ?I (snd (main e st)))
                = Call (Emit ''unsubscribe'' (Some ''python-clients''))
            \<and> Call Disconnect \<notin> set (new_effects ?I (snd (main e st)))"
    if u: "fst ?U \<noteq> None"
  proof -
    obtain x where x: "fst ?U = Some x" using u by auto
    have r: "main e st = (Some x, snd ?U)"
      using x by (simp add: m f)
    have "new_effects ?I (snd (main e st))
            = Call (Emit ''unsubscribe'' (Some ''python-clients'')) # xs"
      by (rule new_effects_append) (simp add: r xs(1))
    then show ?thesis
      using x r handler_effect_no_disconnect [OF xs(2)] by simp
  qed
  from ok bad show ?thesis by blast
qed

theorem interrupt_shutdown_witness:
  "fst (lib_call env_demo (connect_call st_demo) (before_connect env_demo st_demo)) = None
   \<and> fst (lib_call env_demo Wait (before_wait env_demo st_demo)) = Some KeyboardInterrupt
   \<and> connected env_demo (trace (interrupted env_demo st_demo))
   \<and> fst (unsubscribed env_demo st_demo) = None
   \<and> (\<exists>xs ys. new_effects (interrupted env_demo st_demo) (snd (main env_demo st_demo))
                 = Call (Emit ''unsubscribe'' (Some ''python-clients'')) # xs
                   @ Call Disconnect # ys
               \<and> list_all handler_effect xs)"
proof -
  have 1: "fst (lib_call env_demo (connect_call st_demo) (before_connect env_demo st_demo)) = None"
    by (simp add: run_defs)
  have 2: "fst (lib_call env_demo Wait (before_wait env_demo st_demo)) = Some KeyboardInterrupt"
    by (simp add: run_defs)
  have 3: "connected env_demo (trace (interrupted env_demo st_demo))"
    by (simp add: run_defs)
  have 4: "fst (unsubscribed env_demo st_demo) = None"
    by (simp add: run_defs)
  show ?thesis
    using 1 2 3 4 interrupt_shutdown [OF 1 2 3] by blast
qed

text \<open>
  The claim C2 as stated fails: in the run \<open>env_unsubscribe_fails\<close> the wait is
  interrupted while the client is connected, the emit of \<open>unsubscribe\<close> raises, the
  exception leaves \<open>main\<close>, and \<open>sio.disconnect\<close> has not been called.
\<close>

theorem interrupt_shutdown_counterexample:
  "fst (lib_call env_unsubscribe_fails Wait (before_wait env_unsubscribe_fails st_demo))
     = Some KeyboardInterrupt
   \<and> connected env_unsubscribe_fails (trace (interrupted env_unsubscribe_fails st_demo))
   \<and> fst (unsubscribed env_unsubscribe_fails st_demo) = Some (OtherError ''BadNamespaceError'')
   \<and> fst (main env_unsubscribe_fails st_demo) = Some (OtherError ''BadNamespaceError'')
   \<and> Call (Emit ''unsubscribe'' (Some ''python-clients''))
        \<in> set (trace (snd (main env_unsubscribe_fails st_demo)))
   \<and> Call Disconnect \<notin> set (trace (snd (main env_unsubscribe_fails st_demo)))"
proof -
  have "fst (lib_call env_unsubscribe_fails Wait (before_wait env_unsubscribe_fails st_demo))
          = Some KeyboardInterrupt"
    by (simp add: run_defs)
  moreover have
    "connected env_unsubscribe_fails (trace (interrupted env_unsubscribe_fails st_demo))"
    by (simp add: run_defs)
  moreover have
    "fst (unsubscribed env_unsubscribe_fails st_demo) = Some (OtherError ''BadNamespaceError'')"
    by (simp add: run_defs)
  ultimately show ?thesis
    by (simp add: main_unsubscribe_fails)
qed

section \<open>A connection that fails\<close>




section \<open>No ping is ever sent\<close>

text \<open>
  C10. In every run of the program, whatever the library answers and whatever events
  arrive, no \<open>ping\<close> is emitted: \<open>send_ping\<close>, the only function that emits it, is called
  neither by \<open>main\<close> nor by a handler.
\<close>

theorem send_ping_never_invoked:
  "Call (Emit ''ping'' a) \<notin> set (trace (snd (program e environ)))"
proof -
  have "grows (load_module environ) (snd (main e (load_module environ)))"
    by (rule grows_main)
  then obtain xs where xs:
    "trace (snd (main e (load_module environ))) = xs" "list_all main_effect xs"
    by (auto simp: grows_def load_module_def)
  have "\<not> main_effect (Call (Emit ''ping'' a))"
    by (simp add: main_effect_def handler_effect_def main_call_def)
  with xs(2) have "Call (Emit ''ping'' a) \<notin> set xs"
    by (auto simp: list_all_iff)
  with xs(1) show ?thesis
    by (auto simp: program_def split: prod.splits)
qed

end
